theory Spec2Isabelle
  imports Main
begin

section \<open>JavaScript values and the built-ins the handlers call\<close>

text \<open>
  Strings are byte lists holding the UTF-8 encoding of the JavaScript string, so
  \<^verbatim>\<open>Buffer.from(s)\<close> is the identity on them. Numbers are restricted to integers,
  rendered in decimal. A parsed JSON object is an association list read with \<open>map_of\<close>.
\<close>

datatype js_value =
    JUndefined
  | JNull
  | JBool bool
  | JNum int
  | JStr string
  | JArr "js_value list"
  | JObj "(string \<times> js_value) list"

datatype js_error =
    TypeError
  | SyntaxError
  | NetworkError
  | DelegateError
  | ValidationError

text \<open>Sequencing of steps that may throw: the first error ends the computation.\<close>

definition sum_bind :: "js_error + 'x \<Rightarrow> ('x \<Rightarrow> js_error + 'y) \<Rightarrow> js_error + 'y" where
  "sum_bind r f = (case r of Inl e \<Rightarrow> Inl e | Inr x \<Rightarrow> f x)"

definition digit_char :: "nat \<Rightarrow> char" where
  "digit_char d = ''0123456789'' ! d"

fun decimal :: "nat \<Rightarrow> string" where
  "decimal n = (if n < 10 then [digit_char n] else decimal (n div 10) @ [digit_char (n mod 10)])"

text \<open>\<^verbatim>\<open>Number.prototype.toString\<close> on an integer.\<close>

definition Number_toString :: "int \<Rightarrow> string" where
  "Number_toString i = (if 0 \<le> i then decimal (nat i) else CHR ''-'' # decimal (nat (- i)))"

fun join_with :: "string \<Rightarrow> string list \<Rightarrow> string" where
  "join_with sep [] = []"
| "join_with sep [s] = s"
| "join_with sep (s # t # ss) = s @ sep @ join_with sep (t # ss)"

text \<open>
  Property read \<^verbatim>\<open>v.key\<close> for the keys the handlers read (\<^verbatim>\<open>id\<close>, \<^verbatim>\<open>login\<close>,
  \<^verbatim>\<open>name\<close>, \<^verbatim>\<open>email\<close>, \<^verbatim>\<open>bio\<close>, \<^verbatim>\<open>public_repos\<close>, \<^verbatim>\<open>html_url\<close>), none of
  which is a property of a built-in prototype: reading from \<^verbatim>\<open>undefined\<close> or \<^verbatim>\<open>null\<close>
  throws a TypeError, an object yields its own property or \<^verbatim>\<open>undefined\<close>, any other
  value yields \<^verbatim>\<open>undefined\<close>.
\<close>

fun get_field :: "js_value \<Rightarrow> string \<Rightarrow> js_error + js_value" where
  "get_field JUndefined k = Inl TypeError"
| "get_field JNull k = Inl TypeError"
| "get_field (JObj kvs) k = Inr (case map_of kvs k of None \<Rightarrow> JUndefined | Some v \<Rightarrow> v)"
| "get_field v k = Inr JUndefined"

text \<open>
  The conversion a template literal applies to \<^verbatim>\<open>${v}\<close>. A plain object renders as
  \<^verbatim>\<open>[object Object]\<close>, unless an own property shadows \<^verbatim>\<open>toString\<close> with a value that
  is not callable, which makes the conversion throw. An array joins its elements with
  commas, \<^verbatim>\<open>null\<close> and \<^verbatim>\<open>undefined\<close> elements rendering as the empty string.
\<close>

fun ToString :: "js_value \<Rightarrow> js_error + string"
  and join_elements :: "js_value list \<Rightarrow> js_error + string list" where
  "ToString JUndefined = Inr ''undefined''"
| "ToString JNull = Inr ''null''"
| "ToString (JBool b) = Inr (if b then ''true'' else ''false'')"
| "ToString (JNum n) = Inr (Number_toString n)"
| "ToString (JStr s) = Inr s"
| "ToString (JArr vs) =
     (case join_elements vs of Inl e \<Rightarrow> Inl e | Inr ss \<Rightarrow> Inr (join_with '','' ss))"
| "ToString (JObj kvs) =
     (case map_of kvs ''toString'' of
        None \<Rightarrow> Inr ''[object Object]''
      | Some f \<Rightarrow> Inl TypeError)"
| "join_elements [] = Inr []"
| "join_elements (v # vs) =
     (case (if v = JUndefined \<or> v = JNull then Inr [] else ToString v) of
        Inl e \<Rightarrow> Inl e
      | Inr s \<Rightarrow> (case join_elements vs of Inl e \<Rightarrow> Inl e | Inr ss \<Rightarrow> Inr (s # ss)))"

subsection \<open>JSON.stringify\<close>

definition hex_digit :: "nat \<Rightarrow> char" where
  "hex_digit n = ''0123456789abcdef'' ! n"

definition quote_char :: "char \<Rightarrow> string" where
  "quote_char c =
     (if c = CHR 0x08 then [CHR 0x5C, CHR ''b'']
      else if c = CHR 0x09 then [CHR 0x5C, CHR ''t'']
      else if c = CHR 0x0A then [CHR 0x5C, CHR ''n'']
      else if c = CHR 0x0C then [CHR 0x5C, CHR ''f'']
      else if c = CHR 0x0D then [CHR 0x5C, CHR ''r'']
      else if c = CHR 0x22 then [CHR 0x5C, CHR 0x22]
      else if c = CHR 0x5C then [CHR 0x5C, CHR 0x5C]
      else if (of_char c :: nat) < 32
        then CHR 0x5C # ''u00'' @ [hex_digit (of_char c div 16), hex_digit (of_char c mod 16)]
      else [c])"

definition QuoteJSONString :: "string \<Rightarrow> string" where
  "QuoteJSONString s = CHR 0x22 # concat (map quote_char s) @ [CHR 0x22]"

text \<open>
  Serialisation of a value: \<open>None\<close> is JavaScript's \<^verbatim>\<open>undefined\<close>. A member whose value
  is \<^verbatim>\<open>undefined\<close> is left out of an object; in an array it is written \<^verbatim>\<open>null\<close>.
  Members are written in the order of the association list, which is the order of an
  object literal whose keys are not array indices.
\<close>

fun JSON_serialize :: "js_value \<Rightarrow> string option"
  and serialize_members :: "(string \<times> js_value) list \<Rightarrow> string list"
  and serialize_elements :: "js_value list \<Rightarrow> string list" where
  "JSON_serialize JUndefined = None"
| "JSON_serialize JNull = Some ''null''"
| "JSON_serialize (JBool b) = Some (if b then ''true'' else ''false'')"
| "JSON_serialize (JNum n) = Some (Number_toString n)"
| "JSON_serialize (JStr s) = Some (QuoteJSONString s)"
| "JSON_serialize (JArr vs) = Some (''['' @ join_with '','' (serialize_elements vs) @ '']'')"
| "JSON_serialize (JObj kvs) = Some (''{'' @ join_with '','' (serialize_members kvs) @ ''}'')"
| "serialize_members [] = []"
| "serialize_members ((k, v) # kvs) =
     (case JSON_serialize v of
        None \<Rightarrow> serialize_members kvs
      | Some s \<Rightarrow> (QuoteJSONString k @ '':'' @ s) # serialize_members kvs)"
| "serialize_elements [] = []"
| "serialize_elements (v # vs) =
     (case JSON_serialize v of None \<Rightarrow> ''null'' | Some s \<Rightarrow> s) # serialize_elements vs"

text \<open>\<^verbatim>\<open>JSON.stringify({...})\<close> on an object literal, where the result is always a string.\<close>

definition JSON_stringify :: "(string \<times> js_value) list \<Rightarrow> string" where
  "JSON_stringify kvs = ''{'' @ join_with '','' (serialize_members kvs) @ ''}''"

subsection \<open>Base64\<close>

definition base64_alphabet :: string where
  "base64_alphabet = ''ABCDEFGHIJKLMNOPQRSTUVWXYZabcdefghijklmnopqrstuvwxyz0123456789+/''"

definition b64 :: "nat \<Rightarrow> char" where
  "b64 n = base64_alphabet ! n"

text \<open>\<^verbatim>\<open>Buffer.from(s).toString('base64')\<close>: three bytes give four characters, padded with \<^verbatim>\<open>=\<close>.\<close>

fun toString_base64 :: "string \<Rightarrow> string" where
  "toString_base64 (a # b # c # rest) =
     (let n = of_char a * 65536 + of_char b * 256 + of_char c :: nat
      in [b64 (n div 262144), b64 (n div 4096 mod 64), b64 (n div 64 mod 64), b64 (n mod 64)])
     @ toString_base64 rest"
| "toString_base64 [a, b] =
     (let n = of_char a * 65536 + of_char b * 256 :: nat
      in [b64 (n div 262144), b64 (n div 4096 mod 64), b64 (n div 64 mod 64), CHR ''=''])"
| "toString_base64 [a] =
     (let n = of_char a * 65536 :: nat
      in [b64 (n div 262144), b64 (n div 4096 mod 64), CHR ''='', CHR ''=''])"
| "toString_base64 [] = []"

text \<open>\<^verbatim>\<open>s.replace(/c/g, d)\<close> for a single character, and \<^verbatim>\<open>s.replace(/=+$/, '')\<close>.\<close>

definition replace_all :: "char \<Rightarrow> char \<Rightarrow> string \<Rightarrow> string" where
  "replace_all c d s = map (\<lambda>x. if x = c then d else x) s"

definition strip_trailing_eq :: "string \<Rightarrow> string" where
  "strip_trailing_eq s = rev (dropWhile (\<lambda>x. x = CHR ''='') (rev s))"

text \<open>
  The decoder the round trip is measured against: base64url as RFC 4648 section 5 reads
  it, without padding. It is not part of the service.
\<close>

definition base64url_alphabet :: string where
  "base64url_alphabet = ''ABCDEFGHIJKLMNOPQRSTUVWXYZabcdefghijklmnopqrstuvwxyz0123456789-_''"

fun index_of :: "char \<Rightarrow> string \<Rightarrow> nat option" where
  "index_of c [] = None"
| "index_of c (x # xs) = (if x = c then Some 0 else map_option Suc (index_of c xs))"

fun sextets :: "string \<Rightarrow> nat list option" where
  "sextets [] = Some []"
| "sextets (c # cs) =
     (case index_of c base64url_alphabet of
        None \<Rightarrow> None
      | Some i \<Rightarrow> map_option ((#) i) (sextets cs))"

fun bytes_of_sextets :: "nat list \<Rightarrow> string option" where
  "bytes_of_sextets (p # q # r # s # rest) =
     (let n = p * 262144 + q * 4096 + r * 64 + s
      in map_option
           ((@) [char_of (n div 65536), char_of (n div 256 mod 256), char_of (n mod 256)])
           (bytes_of_sextets rest))"
| "bytes_of_sextets [p, q, r] =
     (let n = p * 262144 + q * 4096 + r * 64
      in Some [char_of (n div 65536), char_of (n div 256 mod 256)])"
| "bytes_of_sextets [p, q] = (let n = p * 262144 + q * 4096 in Some [char_of (n div 65536)])"
| "bytes_of_sextets [p] = None"
| "bytes_of_sextets [] = Some []"

definition base64url_decode :: "string \<Rightarrow> string option" where
  "base64url_decode s = (case sextets s of None \<Rightarrow> None | Some xs \<Rightarrow> bytes_of_sextets xs)"

section \<open>The Token Store\<close>

text \<open>
  \<^verbatim>\<open>const tokenStore = new Map<string, OAuth2Tokens>()\<close>. A JavaScript \<^verbatim>\<open>Map\<close> keeps its
  entries in insertion order; \<^verbatim>\<open>set\<close> overwrites the value of an entry whose key is
  already there and appends a new entry otherwise; \<^verbatim>\<open>get\<close> returns the value of the
  entry with the key, or \<^verbatim>\<open>undefined\<close>.
\<close>

record OAuth2Tokens =
  accessToken :: string
  refreshToken :: "string option"
  expiresAt :: "int option"

type_synonym token_store = "(string \<times> OAuth2Tokens) list"

fun Map_set :: "'key \<Rightarrow> 'val \<Rightarrow> ('key \<times> 'val) list \<Rightarrow> ('key \<times> 'val) list" where
  "Map_set k v [] = [(k, v)]"
| "Map_set k v ((k', v') # es) =
     (if k' = k then (k', v) # es else (k', v') # Map_set k v es)"

fun Map_get :: "('key \<times> 'val) list \<Rightarrow> 'key \<Rightarrow> 'val option" where
  "Map_get [] k = None"
| "Map_get ((k', v') # es) k = (if k' = k then Some v' else Map_get es k)"

section \<open>The world a handler runs in\<close>

record http_request =
  req_url :: string
  req_method :: string
  req_headers :: "(string \<times> string) list"
  req_body :: "string option"

text \<open>
  What \<^verbatim>\<open>fetch\<close> resolves to: the status, and what \<^verbatim>\<open>response.json()\<close> resolves to or
  rejects with. \<^verbatim>\<open>fetch\<close> itself rejects on a network failure only.
\<close>

record http_response =
  resp_status :: nat
  resp_json :: "js_error + js_value"

type_synonym fetch_env = "http_request \<Rightarrow> js_error + http_response"

text \<open>
  The state of one service process: its Token Store and the outbound calls it has issued,
  oldest first. Console output is not part of the state.
\<close>

record world =
  tokenStore :: token_store
  http_log :: "http_request list"

definition init_world :: world where
  "init_world = \<lparr>tokenStore = [], http_log = []\<rparr>"

text \<open>
  \<^verbatim>\<open>app.oauth2\<close> is optional on the SDK's application object; when present its
  \<^verbatim>\<open>generateAuthUrl(provider, agentId)\<close> resolves to a URL or rejects.
\<close>

record app_context =
  oauth2 :: "(string \<Rightarrow> string \<Rightarrow> js_error + string) option"

record agent_info =
  agent_id :: string

record ui_hint =
  ui_type :: string
  uiData :: string

record tool_result =
  result_text :: string
  result_data :: js_value
  result_ui :: ui_hint

text \<open>\<^verbatim>\<open>await app.oauth2?.generateAuthUrl(provider, agentInfo.id)\<close>\<close>

definition generateAuthUrl :: "app_context \<Rightarrow> string \<Rightarrow> string \<Rightarrow> js_error + js_value" where
  "generateAuthUrl app provider agentId =
     (case oauth2 app of
        None \<Rightarrow> Inr JUndefined
      | Some g \<Rightarrow> (case g provider agentId of Inl e \<Rightarrow> Inl e | Inr u \<Rightarrow> Inr (JStr u)))"

text \<open>\<^verbatim>\<open>await fetch(...)\<close> followed by \<^verbatim>\<open>await response.json()\<close>; the status is not read.\<close>

definition fetch_json :: "fetch_env \<Rightarrow> http_request \<Rightarrow> js_error + js_value" where
  "fetch_json fetch req = (case fetch req of Inl e \<Rightarrow> Inl e | Inr response \<Rightarrow> resp_json response)"

section \<open>The Gmail service\<close>

definition compose_email :: "string \<Rightarrow> string \<Rightarrow> string \<Rightarrow> string" where
  \<open>compose_email to subject body =
     concat [''Content-Type: text/plain; charset="UTF-8"\<newline>'',
             ''MIME-Version: 1.0\<newline>'',
             ''To: '' @ to @ ''\<newline>'',
             ''Subject: '' @ subject @ ''\<newline>\<newline>'',
             body]\<close>

definition encode_email :: "string \<Rightarrow> string" where
  "encode_email email =
     strip_trailing_eq (replace_all (CHR ''/'') (CHR ''_'')
       (replace_all (CHR ''+'') (CHR ''-'') (toString_base64 email)))"

definition sendEmail_request :: "OAuth2Tokens \<Rightarrow> string \<Rightarrow> string \<Rightarrow> string \<Rightarrow> http_request" where
  "sendEmail_request tokens to subject body =
     \<lparr>req_url = ''https://gmail.googleapis.com/gmail/v1/users/me/messages/send'',
      req_method = ''POST'',
      req_headers = [(''Authorization'', ''Bearer '' @ accessToken tokens),
                     (''Content-Type'', ''application/json'')],
      req_body = Some (JSON_stringify [(''raw'', JStr (encode_email (compose_email to subject body)))])\<rparr>"

definition google_auth_result :: "js_value \<Rightarrow> tool_result" where
  "google_auth_result authUrl =
     \<lparr>result_text = ''Please authenticate with Google first'',
      result_data = JNull,
      result_ui = \<lparr>ui_type = ''oauth2'',
        uiData = JSON_stringify
          [(''title'', JStr ''Google Authentication''),
           (''logo'', JStr ''https://www.google.com/gmail/about/static-2.0/images/logo-gmail.png''),
           (''content'', JStr ''Please authenticate with Google to send emails''),
           (''url'', authUrl),
           (''provider'', JStr ''google'')]\<rparr>\<rparr>"

definition sendEmail_result :: "string \<Rightarrow> string \<Rightarrow> js_value \<Rightarrow> js_error + tool_result" where
  "sendEmail_result to subject result =
     sum_bind (get_field result ''id'') (\<lambda>rid.
     sum_bind (ToString rid) (\<lambda>rid_s.
       Inr \<lparr>result_text = ''Email sent successfully'',
            result_data = JObj [(''messageId'', rid)],
            result_ui = \<lparr>ui_type = ''card'',
              uiData = JSON_stringify
                [(''title'', JStr ''Email Sent''),
                 (''content'', JStr (''To: '' @ to @ ''\<newline>Subject: '' @ subject
                                     @ ''\<newline>Message ID: '' @ rid_s))]\<rparr>\<rparr>))"

definition sendEmail_handler ::
  "fetch_env \<Rightarrow> app_context \<Rightarrow> string \<Rightarrow> string \<Rightarrow> string \<Rightarrow> agent_info \<Rightarrow> world
     \<Rightarrow> (js_error + tool_result) \<times> world" where
  "sendEmail_handler fetch app to subject body agentInfo w =
     (case Map_get (tokenStore w) (agent_id agentInfo) of
        None \<Rightarrow>
          (case generateAuthUrl app ''google'' (agent_id agentInfo) of
             Inl e \<Rightarrow> (Inl e, w)
           | Inr authUrl \<Rightarrow> (Inr (google_auth_result authUrl), w))
      | Some tokens \<Rightarrow>
          (let req = sendEmail_request tokens to subject body;
               w' = w\<lparr>http_log := http_log w @ [req]\<rparr>
           in case fetch_json fetch req of
                Inl e \<Rightarrow> (Inl e, w')
              | Inr result \<Rightarrow> (sendEmail_result to subject result, w')))"

definition google_onSuccess :: "string \<Rightarrow> OAuth2Tokens \<Rightarrow> world \<Rightarrow> world" where
  "google_onSuccess agentId tokens w = w\<lparr>tokenStore := Map_set agentId tokens (tokenStore w)\<rparr>"

text \<open>
  The events of the Gmail service process: the OAuth2 completion callback, and an
  invocation of the tool by the host (whose result goes to the host).
\<close>

datatype google_event =
    GoogleOnSuccess string OAuth2Tokens
  | InvokeSendEmail fetch_env app_context string string string agent_info

fun google_step :: "google_event \<Rightarrow> world \<Rightarrow> world" where
  "google_step (GoogleOnSuccess agentId tokens) w = google_onSuccess agentId tokens w"
| "google_step (InvokeSendEmail fetch app to subject body agentInfo) w =
     snd (sendEmail_handler fetch app to subject body agentInfo w)"

fun google_run :: "google_event list \<Rightarrow> world \<Rightarrow> world" where
  "google_run [] w = w"
| "google_run (ev # evs) w = google_run evs (google_step ev w)"

section \<open>The GitHub service\<close>

definition github_auth_result :: "js_value \<Rightarrow> tool_result" where
  "github_auth_result authUrl =
     \<lparr>result_text = ''Please authenticate with GitHub first, i have displayed a component to authenticate with GitHub'',
      result_data = JNull,
      result_ui = \<lparr>ui_type = ''oauth2'',
        uiData = JSON_stringify
          [(''title'', JStr ''GitHub Authentication''),
           (''logo'', JStr ''https://github.githubassets.com/assets/GitHub-Mark-ea2971cee799.png''),
           (''content'', JStr ''Please authenticate with GitHub to continue''),
           (''url'', authUrl),
           (''provider'', JStr ''github'')]\<rparr>\<rparr>"

text \<open>\<^verbatim>\<open>fetch\<close> without a \<^verbatim>\<open>method\<close> option issues a GET with no body.\<close>

definition getUserProfile_request :: "OAuth2Tokens \<Rightarrow> http_request" where
  "getUserProfile_request tokens =
     \<lparr>req_url = ''https://api.github.com/user'',
      req_method = ''GET'',
      req_headers = [(''Authorization'', ''Bearer '' @ accessToken tokens),
                     (''Accept'', ''application/json'')],
      req_body = None\<rparr>"

definition getUserProfile_result :: "js_value \<Rightarrow> js_error + tool_result" where
  "getUserProfile_result profile =
     sum_bind (get_field profile ''login'') (\<lambda>login.
     sum_bind (ToString login) (\<lambda>login_s.
     sum_bind (get_field profile ''name'') (\<lambda>name.
     sum_bind (get_field profile ''email'') (\<lambda>email.
     sum_bind (get_field profile ''bio'') (\<lambda>bio.
     sum_bind (get_field profile ''public_repos'') (\<lambda>public_repos.
     sum_bind (ToString name) (\<lambda>name_s.
     sum_bind (ToString email) (\<lambda>email_s.
     sum_bind (ToString bio) (\<lambda>bio_s.
     sum_bind (ToString public_repos) (\<lambda>public_repos_s.
       Inr \<lparr>result_text = ''Retrieved GitHub profile for '' @ login_s,
            result_data = JObj [(''login'', login), (''name'', name), (''email'', email),
                                (''bio'', bio), (''public_repos'', public_repos)],
            result_ui = \<lparr>ui_type = ''card'',
              uiData = JSON_stringify
                [(''title'', JStr ''GitHub Profile''),
                 (''content'', JStr (''Login: '' @ login_s @ ''\<newline>Name: '' @ name_s
                    @ ''\<newline>Email: '' @ email_s @ ''\<newline>Bio: '' @ bio_s
                    @ ''\<newline>Public Repos: '' @ public_repos_s))]\<rparr>\<rparr>))))))))))"

definition getUserProfile_handler ::
  "fetch_env \<Rightarrow> app_context \<Rightarrow> agent_info \<Rightarrow> world \<Rightarrow> (js_error + tool_result) \<times> world" where
  "getUserProfile_handler fetch app agentInfo w =
     (case Map_get (tokenStore w) (agent_id agentInfo) of
        None \<Rightarrow>
          (case generateAuthUrl app ''github'' (agent_id agentInfo) of
             Inl e \<Rightarrow> (Inl e, w)
           | Inr authUrl \<Rightarrow> (Inr (github_auth_result authUrl), w))
      | Some tokens \<Rightarrow>
          (let req = getUserProfile_request tokens;
               w' = w\<lparr>http_log := http_log w @ [req]\<rparr>
           in case fetch_json fetch req of
                Inl e \<Rightarrow> (Inl e, w')
              | Inr profile \<Rightarrow> (getUserProfile_result profile, w')))"

definition createGist_body :: "string \<Rightarrow> bool \<Rightarrow> string \<Rightarrow> string \<Rightarrow> (string \<times> js_value) list" where
  "createGist_body description isPublic filename content =
     [(''description'', JStr description),
      (''public'', JBool isPublic),
      (''files'', JObj [(filename, JObj [(''content'', JStr content)])])]"

definition createGist_request ::
  "OAuth2Tokens \<Rightarrow> string \<Rightarrow> bool \<Rightarrow> string \<Rightarrow> string \<Rightarrow> http_request" where
  "createGist_request tokens description isPublic filename content =
     \<lparr>req_url = ''https://api.github.com/gists'',
      req_method = ''POST'',
      req_headers = [(''Authorization'', ''Bearer '' @ accessToken tokens),
                     (''Accept'', ''application/json''),
                     (''Content-Type'', ''application/json'')],
      req_body = Some (JSON_stringify (createGist_body description isPublic filename content))\<rparr>"

definition createGist_result :: "js_value \<Rightarrow> js_error + tool_result" where
  "createGist_result gist =
     sum_bind (get_field gist ''html_url'') (\<lambda>html_url.
     sum_bind (ToString html_url) (\<lambda>html_url_s.
     sum_bind (get_field gist ''id'') (\<lambda>gid.
     sum_bind (ToString gid) (\<lambda>gid_s.
       Inr \<lparr>result_text = ''Created Gist: '' @ html_url_s,
            result_data = JObj [(''html_url'', html_url), (''id'', gid)],
            result_ui = \<lparr>ui_type = ''card'',
              uiData = JSON_stringify
                [(''title'', JStr ''GitHub Gist''),
                 (''content'', JStr (''URL: '' @ html_url_s @ ''\<newline>ID: '' @ gid_s)),
                 (''buttonText'', JStr ''View Gist''),
                 (''buttonUrl'', html_url)]\<rparr>\<rparr>))))"

definition createGist_handler ::
  "fetch_env \<Rightarrow> app_context \<Rightarrow> string \<Rightarrow> bool \<Rightarrow> string \<Rightarrow> string \<Rightarrow> agent_info \<Rightarrow> world
     \<Rightarrow> (js_error + tool_result) \<times> world" where
  "createGist_handler fetch app description isPublic filename content agentInfo w =
     (case Map_get (tokenStore w) (agent_id agentInfo) of
        None \<Rightarrow>
          (case generateAuthUrl app ''github'' (agent_id agentInfo) of
             Inl e \<Rightarrow> (Inl e, w)
           | Inr authUrl \<Rightarrow> (Inr (github_auth_result authUrl), w))
      | Some tokens \<Rightarrow>
          (let req = createGist_request tokens description isPublic filename content;
               w' = w\<lparr>http_log := http_log w @ [req]\<rparr>
           in case fetch_json fetch req of
                Inl e \<Rightarrow> (Inl e, w')
              | Inr gist \<Rightarrow> (createGist_result gist, w')))"

definition github_onSuccess :: "string \<Rightarrow> OAuth2Tokens \<Rightarrow> world \<Rightarrow> world" where
  "github_onSuccess agentId tokens w = w\<lparr>tokenStore := Map_set agentId tokens (tokenStore w)\<rparr>"

subsection \<open>The declared input schema of create-gist\<close>






datatype github_event =
    GithubOnSuccess string OAuth2Tokens
  | InvokeGetUserProfile fetch_env app_context agent_info
  | InvokeCreateGist fetch_env app_context string bool string string agent_info

fun github_step :: "github_event \<Rightarrow> world \<Rightarrow> world" where
  "github_step (GithubOnSuccess agentId tokens) w = github_onSuccess agentId tokens w"
| "github_step (InvokeGetUserProfile fetch app agentInfo) w =
     snd (getUserProfile_handler fetch app agentInfo w)"
| "github_step (InvokeCreateGist fetch app description isPublic filename content agentInfo) w =
     snd (createGist_handler fetch app description isPublic filename content agentInfo w)"

fun github_run :: "github_event list \<Rightarrow> world \<Rightarrow> world" where
  "github_run [] w = w"
| "github_run (ev # evs) w = github_run evs (github_step ev w)"

section \<open>The two kinds of Tool Result\<close>

definition needs_authentication :: "tool_result \<Rightarrow> bool" where
  "needs_authentication r = (result_data r = JNull \<and> ui_type (result_ui r) = ''oauth2'')"

definition action_succeeded :: "tool_result \<Rightarrow> bool" where
  "action_succeeded r = (result_data r \<noteq> JNull \<and> ui_type (result_ui r) = ''card'')"

section \<open>Environments\<close>



text \<open>Concrete callers, credentials and providers for the examples.\<close>

definition alice :: agent_info where
  "alice = \<lparr>agent_id = ''alice''\<rparr>"

definition first_tokens :: OAuth2Tokens where
  "first_tokens = \<lparr>accessToken = ''tok-1'', refreshToken = None, expiresAt = None\<rparr>"

definition second_tokens :: OAuth2Tokens where
  "second_tokens = \<lparr>accessToken = ''tok-2'', refreshToken = None, expiresAt = None\<rparr>"

definition no_delegate :: app_context where
  "no_delegate = \<lparr>oauth2 = None\<rparr>"

definition example_url :: "string \<Rightarrow> string \<Rightarrow> js_error + string" where
  "example_url provider agentId = Inr (''https://auth.example/'' @ provider @ ''/'' @ agentId)"

definition example_delegate :: app_context where
  "example_delegate = \<lparr>oauth2 = Some example_url\<rparr>"

definition no_network :: fetch_env where
  "no_network req = Inl NetworkError"


definition respond :: "nat \<Rightarrow> js_value \<Rightarrow> fetch_env" where
  "respond st v req = Inr \<lparr>resp_status = st, resp_json = Inr v\<rparr>"


definition bob_profile :: js_value where
  "bob_profile =
     JObj [(''login'', JStr ''bob''), (''name'', JStr ''Bob''), (''email'', JStr ''b@x.com''),
           (''bio'', JStr ''hi''), (''public_repos'', JNum 3)]"

definition created_gist :: js_value where
  "created_gist = JObj [(''html_url'', JStr ''https://gist.github.com/alice/1''), (''id'', JStr ''1'')]"


section \<open>Properties of the Token Store\<close>

lemma Map_get_Map_set:
  "Map_get (Map_set k v es) k' = (if k' = k then Some v else Map_get es k')"
  by (induction es) auto

lemma keys_Map_set:
  "map fst (Map_set k v es) = (if k \<in> fst ` set es then map fst es else map fst es @ [k])"
  by (induction es) (auto simp: rev_image_eqI)

lemma distinct_keys_Map_set:
  "distinct (map fst (Map_set k v es)) = distinct (map fst es)"
  by (simp add: keys_Map_set)

lemma entries_Map_set:
  "distinct (map fst es) \<Longrightarrow> filter (\<lambda>e. fst e = k) (Map_set k v es) = [(k, v)]"
proof (induction es)
  case Nil
  then show ?case by simp
next
  case (Cons e es)
  obtain k' v' where e: "e = (k', v')" by (cases e)
  show ?case
  proof (cases "k' = k")
    case True
    with Cons.prems e have "k \<notin> fst ` set es" by auto
    then have "filter (\<lambda>e. fst e = k) es = []"
      by (auto simp: filter_empty_conv)
    with True e show ?thesis by simp
  next
    case False
    with Cons e show ?thesis by simp
  qed
qed

lemma sendEmail_store:
  "tokenStore (snd (sendEmail_handler fetch app to subject body agentInfo w)) = tokenStore w"
  by (simp add: sendEmail_handler_def Let_def split: option.split sum.split)

lemma getUserProfile_store:
  "tokenStore (snd (getUserProfile_handler fetch app agentInfo w)) = tokenStore w"
  by (simp add: getUserProfile_handler_def Let_def split: option.split sum.split)

lemma createGist_store:
  "tokenStore (snd (createGist_handler fetch app description isPublic filename content agentInfo w))
     = tokenStore w"
  by (simp add: createGist_handler_def Let_def split: option.split sum.split)

lemma google_step_keys:
  "distinct (map fst (tokenStore (google_step ev w))) = distinct (map fst (tokenStore w))"
  by (cases ev) (simp_all add: google_onSuccess_def distinct_keys_Map_set sendEmail_store)

lemma github_step_keys:
  "distinct (map fst (tokenStore (github_step ev w))) = distinct (map fst (tokenStore w))"
  by (cases ev)
     (simp_all add: github_onSuccess_def distinct_keys_Map_set getUserProfile_store createGist_store)

lemma google_run_keys:
  "distinct (map fst (tokenStore (google_run evs w))) = distinct (map fst (tokenStore w))"
  by (induction evs arbitrary: w) (simp_all add: google_step_keys)

lemma github_run_keys:
  "distinct (map fst (tokenStore (github_run evs w))) = distinct (map fst (tokenStore w))"
  by (induction evs arbitrary: w) (simp_all add: github_step_keys)

text \<open>
  Claim C7. Two completion callbacks in sequence for one caller identity leave the second
  credential as the one \<open>get\<close> returns and as the only entry under that identity, and in
  every state either service reaches from its start, by callbacks and tool invocations in
  any order, the keys of the Token Store are pairwise distinct: at most one credential
  per caller identity.
\<close>

theorem token_store_last_write_wins:
  "distinct (map fst (tokenStore (google_run evs init_world)))
   \<and> distinct (map fst (tokenStore (github_run evs' init_world)))
   \<and> Map_get (tokenStore (google_onSuccess agentId t2 (google_onSuccess agentId t1
        (google_run evs init_world)))) agentId = Some t2
   \<and> filter (\<lambda>e. fst e = agentId) (tokenStore (google_onSuccess agentId t2
        (google_onSuccess agentId t1 (google_run evs init_world)))) = [(agentId, t2)]
   \<and> Map_get (tokenStore (github_onSuccess agentId t2 (github_onSuccess agentId t1
        (github_run evs' init_world)))) agentId = Some t2
   \<and> filter (\<lambda>e. fst e = agentId) (tokenStore (github_onSuccess agentId t2
        (github_onSuccess agentId t1 (github_run evs' init_world)))) = [(agentId, t2)]"
proof -
  have g: "distinct (map fst (tokenStore (google_run evs init_world)))"
    by (simp add: google_run_keys init_world_def)
  have h: "distinct (map fst (tokenStore (github_run evs' init_world)))"
    by (simp add: github_run_keys init_world_def)
  have g1: "distinct (map fst (Map_set agentId t1 (tokenStore (google_run evs init_world))))"
    using g by (simp add: distinct_keys_Map_set)
  have h1: "distinct (map fst (Map_set agentId t1 (tokenStore (github_run evs' init_world))))"
    using h by (simp add: distinct_keys_Map_set)
  show ?thesis
    using g h entries_Map_set [OF g1] entries_Map_set [OF h1]
    by (simp add: google_onSuccess_def github_onSuccess_def Map_get_Map_set)
qed

section \<open>The frame of a tool invocation\<close>

text \<open>
  Claim C9. Each of the three handlers returns the Token Store it was given, whichever
  branch it takes and whatever the provider answers; among the events of either service
  only the completion callback changes the store, by one \<open>set\<close>.
\<close>

theorem handlers_leave_token_store:
  "tokenStore (snd (sendEmail_handler fetch app to subject body agentInfo w)) = tokenStore w
   \<and> tokenStore (snd (getUserProfile_handler fetch app agentInfo w)) = tokenStore w
   \<and> tokenStore (snd (createGist_handler fetch app description isPublic filename content
        agentInfo w)) = tokenStore w
   \<and> tokenStore (google_step gev w) =
       (case gev of GoogleOnSuccess agentId tokens \<Rightarrow> Map_set agentId tokens (tokenStore w)
                  | InvokeSendEmail f a t s b i \<Rightarrow> tokenStore w)
   \<and> tokenStore (github_step hev w) =
       (case hev of GithubOnSuccess agentId tokens \<Rightarrow> Map_set agentId tokens (tokenStore w)
                  | InvokeGetUserProfile f a i \<Rightarrow> tokenStore w
                  | InvokeCreateGist f a d p n c i \<Rightarrow> tokenStore w)"
  by (simp add: sendEmail_store getUserProfile_store createGist_store google_onSuccess_def
        github_onSuccess_def split: google_event.split github_event.split)


section \<open>The action branch\<close>

text \<open>With a credential stored, a handler issues its request, logs it and maps the answer.\<close>

lemma sendEmail_authenticated:
  "Map_get (tokenStore w) (agent_id agentInfo) = Some tokens \<Longrightarrow>
   sendEmail_handler fetch app to subject body agentInfo w =
     (sum_bind (fetch_json fetch (sendEmail_request tokens to subject body))
        (sendEmail_result to subject),
      w\<lparr>http_log := http_log w @ [sendEmail_request tokens to subject body]\<rparr>)"
  by (simp add: sendEmail_handler_def Let_def sum_bind_def split: sum.split)

lemma getUserProfile_authenticated:
  "Map_get (tokenStore w) (agent_id agentInfo) = Some tokens \<Longrightarrow>
   getUserProfile_handler fetch app agentInfo w =
     (sum_bind (fetch_json fetch (getUserProfile_request tokens)) getUserProfile_result,
      w\<lparr>http_log := http_log w @ [getUserProfile_request tokens]\<rparr>)"
  by (simp add: getUserProfile_handler_def Let_def sum_bind_def split: sum.split)

lemma createGist_authenticated:
  "Map_get (tokenStore w) (agent_id agentInfo) = Some tokens \<Longrightarrow>
   createGist_handler fetch app description isPublic filename content agentInfo w =
     (sum_bind (fetch_json fetch (createGist_request tokens description isPublic filename content))
        createGist_result,
      w\<lparr>http_log := http_log w
         @ [createGist_request tokens description isPublic filename content]\<rparr>)"
  by (simp add: createGist_handler_def Let_def sum_bind_def split: sum.split)

text \<open>
  Claim C3. When the Token Store holds a credential for the caller, an invocation of
  any of the three tools adds exactly one request to the outbound calls, and the
  \<^verbatim>\<open>Authorization\<close> header of that request is \<^verbatim>\<open>Bearer\<close> followed by the access token of
  the stored credential, whatever the provider then answers.
\<close>

theorem one_call_with_bearer_token:
  assumes "Map_get (tokenStore w) (agent_id agentInfo) = Some tokens"
    and "Map_get (tokenStore w') (agent_id agentInfo') = Some tokens'"
  shows "http_log (snd (sendEmail_handler fetch app to subject body agentInfo w))
           = http_log w @ [sendEmail_request tokens to subject body]
         \<and> map_of (req_headers (sendEmail_request tokens to subject body)) ''Authorization''
           = Some (''Bearer '' @ accessToken tokens)
         \<and> http_log (snd (getUserProfile_handler fetch' app' agentInfo' w'))
           = http_log w' @ [getUserProfile_request tokens']
         \<and> map_of (req_headers (getUserProfile_request tokens')) ''Authorization''
           = Some (''Bearer '' @ accessToken tokens')
         \<and> http_log (snd (createGist_handler fetch' app' description isPublic filename content
              agentInfo' w'))
           = http_log w' @ [createGist_request tokens' description isPublic filename content]
         \<and> map_of (req_headers (createGist_request tokens' description isPublic filename content))
              ''Authorization''
           = Some (''Bearer '' @ accessToken tokens')"
  using assms
  by (simp add: sendEmail_authenticated getUserProfile_authenticated createGist_authenticated
        sendEmail_request_def getUserProfile_request_def createGist_request_def)

theorem one_call_with_bearer_token_witness:
  "Map_get (tokenStore (google_onSuccess ''alice'' first_tokens init_world)) (agent_id alice)
     = Some first_tokens
   \<and> Map_get (tokenStore (github_onSuccess ''alice'' second_tokens init_world)) (agent_id alice)
     = Some second_tokens
   \<and> http_log (snd (sendEmail_handler no_network no_delegate ''a@b.com'' ''Hi'' ''hello'' alice
        (google_onSuccess ''alice'' first_tokens init_world)))
     = [sendEmail_request first_tokens ''a@b.com'' ''Hi'' ''hello'']
   \<and> map_of (req_headers (sendEmail_request first_tokens ''a@b.com'' ''Hi'' ''hello''))
        ''Authorization'' = Some ''Bearer tok-1''
   \<and> http_log (snd (getUserProfile_handler no_network no_delegate alice
        (github_onSuccess ''alice'' second_tokens init_world)))
     = [getUserProfile_request second_tokens]
   \<and> map_of (req_headers (getUserProfile_request second_tokens)) ''Authorization''
     = Some ''Bearer tok-2''
   \<and> http_log (snd (createGist_handler no_network no_delegate ''notes'' False ''a.txt'' ''x'' alice
        (github_onSuccess ''alice'' second_tokens init_world)))
     = [createGist_request second_tokens ''notes'' False ''a.txt'' ''x'']
   \<and> map_of (req_headers (createGist_request second_tokens ''notes'' False ''a.txt'' ''x''))
        ''Authorization'' = Some ''Bearer tok-2''"
proof -
  have g: "Map_get (tokenStore (google_onSuccess ''alice'' first_tokens init_world))
             (agent_id alice) = Some first_tokens"
    by (simp add: google_onSuccess_def init_world_def alice_def)
  have h: "Map_get (tokenStore (github_onSuccess ''alice'' second_tokens init_world))
             (agent_id alice) = Some second_tokens"
    by (simp add: github_onSuccess_def init_world_def alice_def)
  show ?thesis
    using g h one_call_with_bearer_token [OF g h, of no_network no_delegate "''a@b.com''" "''Hi''"
        "''hello''" no_network no_delegate "''notes''" False "''a.txt''" "''x''"]
    by (simp add: google_onSuccess_def github_onSuccess_def init_world_def first_tokens_def
          second_tokens_def)
qed


section \<open>The gist request\<close>

lemma gist_body_text:
  \<open>JSON_stringify (createGist_body description isPublic filename content) =
     ''{"description":'' @ QuoteJSONString description
     @ '',"public":'' @ (if isPublic then ''true'' else ''false'')
     @ '',"files":{'' @ QuoteJSONString filename
     @ '':{"content":'' @ QuoteJSONString content @ ''}}}''\<close>
  by (simp add: JSON_stringify_def createGist_body_def QuoteJSONString_def quote_char_def)

text \<open>
  Claim C5. With a credential stored for the caller, create-gist invoked with filename
  \<^verbatim>\<open>a.txt\<close>, content \<^verbatim>\<open>x\<close>, public false and any description issues one request whose
  body is the serialisation of an object with the given description, \<^verbatim>\<open>public\<close> false and
  a \<^verbatim>\<open>files\<close> object whose only key is \<^verbatim>\<open>a.txt\<close>, mapped to an object with content
  \<^verbatim>\<open>x\<close>; the text of that body is written out.
\<close>

theorem gist_request_body:
  assumes "Map_get (tokenStore w) (agent_id agentInfo) = Some tokens"
  shows \<open>map req_body (drop (length (http_log w))
            (http_log (snd (createGist_handler fetch app description False ''a.txt'' ''x''
               agentInfo w))))
         = [Some (JSON_stringify
              [(''description'', JStr description),
               (''public'', JBool False),
               (''files'', JObj [(''a.txt'', JObj [(''content'', JStr ''x'')])])])]
       \<and> JSON_stringify
              [(''description'', JStr description),
               (''public'', JBool False),
               (''files'', JObj [(''a.txt'', JObj [(''content'', JStr ''x'')])])]
         = ''{"description":'' @ QuoteJSONString description
           @ '',"public":false,"files":{"a.txt":{"content":"x"}}}''\<close>
  using assms gist_body_text [of description False "''a.txt''" "''x''"]
  by (simp add: createGist_authenticated createGist_request_def createGist_body_def
        QuoteJSONString_def quote_char_def)


theorem gist_request_body_witness:
  \<open>Map_get (tokenStore (github_onSuccess ''alice'' first_tokens init_world)) (agent_id alice)
     = Some first_tokens
   \<and> map req_body (http_log (snd (createGist_handler no_network no_delegate ''notes'' False
        ''a.txt'' ''x'' alice (github_onSuccess ''alice'' first_tokens init_world))))
     = [Some ''{"description":"notes","public":false,"files":{"a.txt":{"content":"x"}}}'']\<close>
proof -
  have c: "Map_get (tokenStore (github_onSuccess ''alice'' first_tokens init_world))
             (agent_id alice) = Some first_tokens"
    by (simp add: github_onSuccess_def init_world_def alice_def)
  show ?thesis
    using c gist_request_body [OF c, of no_network no_delegate "''notes''"]
    by (simp add: github_onSuccess_def init_world_def QuoteJSONString_def quote_char_def)
qed



section \<open>The two branches exclude each other\<close>

lemma sendEmail_result_kind:
  "sendEmail_result to subject v = Inr r \<Longrightarrow>
     result_data r \<noteq> JNull \<and> ui_type (result_ui r) = ''card''"
  by (auto simp: sendEmail_result_def sum_bind_def split: sum.splits)

lemma getUserProfile_result_kind:
  "getUserProfile_result v = Inr r \<Longrightarrow>
     result_data r \<noteq> JNull \<and> ui_type (result_ui r) = ''card''"
  by (auto simp: getUserProfile_result_def sum_bind_def split: sum.splits)

lemma createGist_result_kind:
  "createGist_result v = Inr r \<Longrightarrow>
     result_data r \<noteq> JNull \<and> ui_type (result_ui r) = ''card''"
  by (auto simp: createGist_result_def sum_bind_def split: sum.splits)

lemma sendEmail_kind:
  "fst (sendEmail_handler fetch app to subject body agentInfo w) = Inr r \<Longrightarrow>
   needs_authentication r = (Map_get (tokenStore w) (agent_id agentInfo) = None)
   \<and> action_succeeded r = (Map_get (tokenStore w) (agent_id agentInfo) \<noteq> None)"
  by (auto simp: sendEmail_handler_def Let_def needs_authentication_def action_succeeded_def
        google_auth_result_def dest: sendEmail_result_kind split: option.splits sum.splits)

lemma getUserProfile_kind:
  "fst (getUserProfile_handler fetch app agentInfo w) = Inr r \<Longrightarrow>
   needs_authentication r = (Map_get (tokenStore w) (agent_id agentInfo) = None)
   \<and> action_succeeded r = (Map_get (tokenStore w) (agent_id agentInfo) \<noteq> None)"
  by (auto simp: getUserProfile_handler_def Let_def needs_authentication_def action_succeeded_def
        github_auth_result_def dest: getUserProfile_result_kind split: option.splits sum.splits)

lemma createGist_kind:
  "fst (createGist_handler fetch app description isPublic filename content agentInfo w) = Inr r \<Longrightarrow>
   needs_authentication r = (Map_get (tokenStore w) (agent_id agentInfo) = None)
   \<and> action_succeeded r = (Map_get (tokenStore w) (agent_id agentInfo) \<noteq> None)"
  by (auto simp: createGist_handler_def Let_def needs_authentication_def action_succeeded_def
        github_auth_result_def dest: createGist_result_kind split: option.splits sum.splits)


text \<open>
  Claim C8. Whenever an invocation of a tool returns a Tool Result, the result is of
  exactly one of the two kinds: it needs authentication (null data, \<^verbatim>\<open>oauth2\<close> hint)
  exactly when the Token Store holds no credential for the caller, and otherwise it is
  an action result (data that is not null, \<^verbatim>\<open>card\<close> hint).
\<close>

theorem result_is_exactly_one_kind:
  assumes "fst (sendEmail_handler fetch1 app1 to subject body agent1 w1) = Inr r1"
    and "fst (getUserProfile_handler fetch2 app2 agent2 w2) = Inr r2"
    and "fst (createGist_handler fetch3 app3 description isPublic filename content agent3 w3)
           = Inr r3"
  shows "needs_authentication r1 \<noteq> action_succeeded r1
       \<and> needs_authentication r1 = (Map_get (tokenStore w1) (agent_id agent1) = None)
       \<and> needs_authentication r2 \<noteq> action_succeeded r2
       \<and> needs_authentication r2 = (Map_get (tokenStore w2) (agent_id agent2) = None)
       \<and> needs_authentication r3 \<noteq> action_succeeded r3
       \<and> needs_authentication r3 = (Map_get (tokenStore w3) (agent_id agent3) = None)"
  using sendEmail_kind [OF assms(1)] getUserProfile_kind [OF assms(2)]
    createGist_kind [OF assms(3)]
  by simp

theorem result_is_exactly_one_kind_witness:
  "map_sum id (\<lambda>r. (needs_authentication r, action_succeeded r))
     (fst (sendEmail_handler no_network example_delegate ''a@b.com'' ''Hi'' ''hello'' alice
        init_world)) = Inr (True, False)
   \<and> map_sum id (\<lambda>r. (needs_authentication r, action_succeeded r))
     (fst (getUserProfile_handler (respond 200 bob_profile) example_delegate alice
        (github_onSuccess ''alice'' first_tokens init_world))) = Inr (False, True)
   \<and> map_sum id (\<lambda>r. (needs_authentication r, action_succeeded r))
     (fst (createGist_handler (respond 201 created_gist) example_delegate ''notes'' False ''a.txt''
        ''x'' alice (github_onSuccess ''alice'' first_tokens init_world))) = Inr (False, True)"
proof -
  have c: "Map_get (tokenStore (github_onSuccess ''alice'' first_tokens init_world))
             (agent_id alice) = Some first_tokens"
    by (simp add: github_onSuccess_def init_world_def alice_def)
  have n: "Map_get (tokenStore init_world) (agent_id alice) = None"
    by (simp add: init_world_def)
  have r1: "fst (sendEmail_handler no_network example_delegate ''a@b.com'' ''Hi'' ''hello'' alice
              init_world) = Inr (google_auth_result (JStr ''https://auth.example/google/alice''))"
    by (simp add: sendEmail_handler_def init_world_def generateAuthUrl_def example_delegate_def
          example_url_def alice_def)
  have p: "getUserProfile_result bob_profile = Inr (projr (getUserProfile_result bob_profile))"
    by (simp add: getUserProfile_result_def bob_profile_def sum_bind_def Number_toString_def
          digit_char_def)
  have q: "createGist_result created_gist = Inr (projr (createGist_result created_gist))"
    by (simp add: createGist_result_def created_gist_def sum_bind_def)
  have r2: "fst (getUserProfile_handler (respond 200 bob_profile) example_delegate alice
              (github_onSuccess ''alice'' first_tokens init_world))
            = Inr (projr (getUserProfile_result bob_profile))"
    using p by (simp add: getUserProfile_authenticated [OF c] fetch_json_def respond_def sum_bind_def)
  have r3: "fst (createGist_handler (respond 201 created_gist) example_delegate ''notes'' False
              ''a.txt'' ''x'' alice (github_onSuccess ''alice'' first_tokens init_world))
            = Inr (projr (createGist_result created_gist))"
    using q by (simp add: createGist_authenticated [OF c] fetch_json_def respond_def sum_bind_def)
  show ?thesis
    using result_is_exactly_one_kind [OF r1 r2 r3] c n
    by (auto simp: r1 r2 r3)
qed


section \<open>The authenticate branch\<close>








section \<open>Failures of the outbound call\<close>





section \<open>The profile tool\<close>

text \<open>
  Claim C6. With a credential stored and the provider answering with the object
  \<^verbatim>\<open>{login:"bob", name:"Bob", email:"b@x.com", bio:"hi", public_repos:3}\<close>, get-profile
  returns a result whose data holds exactly these five members with the same values.
\<close>

theorem profile_fields_pass_through:
  assumes "Map_get (tokenStore w) (agent_id agentInfo) = Some tokens"
    and "fetch (getUserProfile_request tokens) = Inr response"
    and "resp_json response =
           Inr (JObj [(''login'', JStr ''bob''), (''name'', JStr ''Bob''),
                      (''email'', JStr ''b@x.com''), (''bio'', JStr ''hi''),
                      (''public_repos'', JNum 3)])"
  shows "fst (getUserProfile_handler fetch app agentInfo w) =
           Inr \<lparr>result_text = ''Retrieved GitHub profile for bob'',
                result_data =
                  JObj [(''login'', JStr ''bob''), (''name'', JStr ''Bob''),
                        (''email'', JStr ''b@x.com''), (''bio'', JStr ''hi''),
                        (''public_repos'', JNum 3)],
                result_ui = \<lparr>ui_type = ''card'',
                  uiData = JSON_stringify
                    [(''title'', JStr ''GitHub Profile''),
                     (''content'', JStr ''Login: bob\<newline>Name: Bob\<newline>Email: b@x.com\<newline>Bio: hi\<newline>Public Repos: 3'')]\<rparr>\<rparr>"
  using assms
  by (simp add: getUserProfile_authenticated fetch_json_def getUserProfile_result_def
        sum_bind_def Number_toString_def digit_char_def)

theorem profile_fields_pass_through_witness:
  "Map_get (tokenStore (github_onSuccess ''alice'' first_tokens init_world)) (agent_id alice)
     = Some first_tokens
   \<and> respond 200 bob_profile (getUserProfile_request first_tokens)
     = Inr \<lparr>resp_status = 200, resp_json = Inr bob_profile\<rparr>
   \<and> map_sum id result_data (fst (getUserProfile_handler (respond 200 bob_profile) no_delegate
        alice (github_onSuccess ''alice'' first_tokens init_world)))
     = Inr bob_profile"
proof -
  have c: "Map_get (tokenStore (github_onSuccess ''alice'' first_tokens init_world))
             (agent_id alice) = Some first_tokens"
    by (simp add: github_onSuccess_def init_world_def alice_def)
  have f: "respond 200 bob_profile (getUserProfile_request first_tokens)
             = Inr \<lparr>resp_status = 200, resp_json = Inr bob_profile\<rparr>"
    by (simp add: respond_def)
  have j: "resp_json \<lparr>resp_status = 200, resp_json = Inr bob_profile\<rparr> =
             Inr (JObj [(''login'', JStr ''bob''), (''name'', JStr ''Bob''),
                        (''email'', JStr ''b@x.com''), (''bio'', JStr ''hi''),
                        (''public_repos'', JNum 3)])"
    by (simp add: bob_profile_def)
  show ?thesis
    using c f profile_fields_pass_through [of "github_onSuccess ''alice'' first_tokens init_world"
        alice first_tokens "respond 200 bob_profile"
        "\<lparr>resp_status = 200, resp_json = Inr bob_profile\<rparr>" no_delegate, OF c f j]
    by (simp add: bob_profile_def)
qed


section \<open>The encoded email\<close>

lemma compose_email_example:
  \<open>compose_email ''a@b.com'' ''Hi'' ''hello\<newline>'' =
     ''Content-Type: text/plain; charset="UTF-8"\<newline>MIME-Version: 1.0\<newline>To: a@b.com\<newline>Subject: Hi\<newline>\<newline>hello\<newline>''\<close>
  by (simp add: compose_email_def)

lemma toString_base64_example:
  \<open>toString_base64 ''Content-Type: text/plain; charset="UTF-8"\<newline>MIME-Version: 1.0\<newline>To: a@b.com\<newline>Subject: Hi\<newline>\<newline>hello\<newline>''
     = ''Q29udGVudC1UeXBlOiB0ZXh0L3BsYWluOyBjaGFyc2V0PSJVVEYtOCIKTUlNRS1WZXJzaW9uOiAxLjAKVG86IGFAYi5jb20KU3ViamVjdDogSGkKCmhlbGxvCg==''\<close>
  by (simp add: b64_def base64_alphabet_def)

lemma encode_email_example:
  \<open>encode_email ''Content-Type: text/plain; charset="UTF-8"\<newline>MIME-Version: 1.0\<newline>To: a@b.com\<newline>Subject: Hi\<newline>\<newline>hello\<newline>''
     = ''Q29udGVudC1UeXBlOiB0ZXh0L3BsYWluOyBjaGFyc2V0PSJVVEYtOCIKTUlNRS1WZXJzaW9uOiAxLjAKVG86IGFAYi5jb20KU3ViamVjdDogSGkKCmhlbGxvCg''\<close>
  unfolding encode_email_def toString_base64_example
  by (simp add: replace_all_def strip_trailing_eq_def)

lemma base64url_decode_example:
  \<open>base64url_decode ''Q29udGVudC1UeXBlOiB0ZXh0L3BsYWluOyBjaGFyc2V0PSJVVEYtOCIKTUlNRS1WZXJzaW9uOiAxLjAKVG86IGFAYi5jb20KU3ViamVjdDogSGkKCmhlbGxvCg''
     = Some ''Content-Type: text/plain; charset="UTF-8"\<newline>MIME-Version: 1.0\<newline>To: a@b.com\<newline>Subject: Hi\<newline>\<newline>hello\<newline>''\<close>
  by (simp add: base64url_decode_def base64url_alphabet_def char_of_def bit_Suc_0_iff)

text \<open>
  Claim C4. For body \<^verbatim>\<open>hello\<close> followed by a newline, recipient \<^verbatim>\<open>a@b.com\<close> and subject
  \<^verbatim>\<open>Hi\<close>: the composed message is the four header lines, a blank line and the body; its
  standard base64 ends in two padding characters, and the encoded form is that text with
  the padding stripped (it has no \<^verbatim>\<open>+\<close> or \<^verbatim>\<open>/\<close> to replace), contains no \<^verbatim>\<open>+\<close> and no
  \<^verbatim>\<open>/\<close>, and does not end in \<^verbatim>\<open>=\<close>; decoding it as base64url gives the composed
  message back byte for byte; and it is the \<^verbatim>\<open>raw\<close> member of the request body.
\<close>

theorem email_encoding_example:
  \<open>compose_email ''a@b.com'' ''Hi'' ''hello\<newline>'' =
     ''Content-Type: text/plain; charset="UTF-8"\<newline>MIME-Version: 1.0\<newline>To: a@b.com\<newline>Subject: Hi\<newline>\<newline>hello\<newline>''
   \<and> toString_base64 (compose_email ''a@b.com'' ''Hi'' ''hello\<newline>'')
     = ''Q29udGVudC1UeXBlOiB0ZXh0L3BsYWluOyBjaGFyc2V0PSJVVEYtOCIKTUlNRS1WZXJzaW9uOiAxLjAKVG86IGFAYi5jb20KU3ViamVjdDogSGkKCmhlbGxvCg==''
   \<and> encode_email (compose_email ''a@b.com'' ''Hi'' ''hello\<newline>'')
     = ''Q29udGVudC1UeXBlOiB0ZXh0L3BsYWluOyBjaGFyc2V0PSJVVEYtOCIKTUlNRS1WZXJzaW9uOiAxLjAKVG86IGFAYi5jb20KU3ViamVjdDogSGkKCmhlbGxvCg''
   \<and> CHR ''+'' \<notin> set (encode_email (compose_email ''a@b.com'' ''Hi'' ''hello\<newline>''))
   \<and> CHR ''/'' \<notin> set (encode_email (compose_email ''a@b.com'' ''Hi'' ''hello\<newline>''))
   \<and> last (encode_email (compose_email ''a@b.com'' ''Hi'' ''hello\<newline>'')) \<noteq> CHR ''=''
   \<and> base64url_decode (encode_email (compose_email ''a@b.com'' ''Hi'' ''hello\<newline>''))
     = Some (compose_email ''a@b.com'' ''Hi'' ''hello\<newline>'')
   \<and> req_body (sendEmail_request tokens ''a@b.com'' ''Hi'' ''hello\<newline>'')
     = Some ''{"raw":"Q29udGVudC1UeXBlOiB0ZXh0L3BsYWluOyBjaGFyc2V0PSJVVEYtOCIKTUlNRS1WZXJzaW9uOiAxLjAKVG86IGFAYi5jb20KU3ViamVjdDogSGkKCmhlbGxvCg"}''\<close>
  unfolding sendEmail_request_def compose_email_example toString_base64_example
    encode_email_example base64url_decode_example
  by (simp add: JSON_stringify_def QuoteJSONString_def quote_char_def)

end
